theory Spec2Isabelle
  imports Complex_Main
begin

section \<open>Data model\<close>

text \<open>
  The viewer's \<open>SnapshotMetadata\<close> and \<open>SatelliteImageData\<close> interfaces. A bounding box is
  the four-number tuple \<open>[minLon, minLat, maxLon, maxLat]\<close>; Leaflet bounds are the pair of
  corner pairs \<open>[[minLat, minLon], [maxLat, maxLon]]\<close>. Timestamps are the integers the index
  generators write. The trajectory payload is opaque to the hook and is carried as text.
\<close>

type_synonym BoundingBox = "real \<times> real \<times> real \<times> real"

type_synonym LeafletBounds = "(real \<times> real) \<times> (real \<times> real)"

record SatelliteImageData =
  image_file :: string
  bbox :: BoundingBox

record SnapshotMetadata =
  path :: string
  timestamp :: int
  satellite_ir108 :: "SatelliteImageData option"
  satellite_rgb_naturalenhncd :: "SatelliteImageData option"

type_synonym LoadedSnapshot = string

text \<open>
  A value thrown by a rejected promise: either an \<open>Error\<close> object with its message, or
  anything else (\<open>err instanceof Error\<close> is false).
\<close>

datatype thrown = ErrorObject string | OtherValue

datatype 'a settled = Fulfilled 'a | Rejected thrown

section \<open>Overlay geo-mapper\<close>

text \<open>
  Modelled from the spec: \<open>bboxToLeafletBounds\<close> lives in \<open>utils/api.ts\<close>, which is not among
  the sources; the README and the specification describe it as the conversion of
  \<open>[minLon, minLat, maxLon, maxLat]\<close> to \<open>[[minLat, minLon], [maxLat, maxLon]]\<close>.
\<close>

definition bboxToLeafletBounds :: "BoundingBox \<Rightarrow> LeafletBounds" where
  "bboxToLeafletBounds b =
     (case b of (minLon, minLat, maxLon, maxLat) \<Rightarrow> ((minLat, minLon), (maxLat, maxLon)))"

section \<open>Default index and prefetch window\<close>

text \<open>
  \<open>const twoDaysAgo = Date.now() - 2 * 24 * 60 * 60 * 1000\<close>, with \<open>Date.now()\<close> passed in
  as \<open>now\<close> (milliseconds since the epoch).
\<close>

definition twoDaysAgo :: "int \<Rightarrow> int" where
  "twoDaysAgo now = now - 2 * 24 * 60 * 60 * 1000"

text \<open>\<open>data.filter((meta) => meta.timestamp >= twoDaysAgo)\<close>\<close>

definition snapshotsToPrefetch :: "int \<Rightarrow> SnapshotMetadata list \<Rightarrow> SnapshotMetadata list" where
  "snapshotsToPrefetch horizon data = filter (\<lambda>meta. timestamp meta \<ge> horizon) data"

text \<open>
  The running minimum of the scan starts at \<open>Infinity\<close> and afterwards holds a finite
  difference.
\<close>

datatype min_diff = Infinity | Finite int

fun less_min :: "int \<Rightarrow> min_diff \<Rightarrow> bool" where
  "less_min d Infinity = True"
| "less_min d (Finite m) = (d < m)"

text \<open>
  The scan \<open>for (let i = 0; i < data.length; i++)\<close> with its two variables
  \<open>initialIndex\<close> and \<open>minDiff\<close>; the replacement test is the strict \<open>diff < minDiff\<close>.
\<close>

function scan_from :: "SnapshotMetadata list \<Rightarrow> int \<Rightarrow> nat \<Rightarrow> nat \<Rightarrow> min_diff \<Rightarrow> nat" where
  "scan_from data horizon i initialIndex minDiff =
     (if i < length data then
        (let diff = \<bar>timestamp (data ! i) - horizon\<bar> in
           if less_min diff minDiff
           then scan_from data horizon (i + 1) i (Finite diff)
           else scan_from data horizon (i + 1) initialIndex minDiff)
      else initialIndex)"
  by pat_completeness auto
termination
  by (relation "measure (\<lambda>(data, horizon, i, initialIndex, minDiff). length data - i)") auto

declare scan_from.simps [simp del]

definition findInitialIndex :: "SnapshotMetadata list \<Rightarrow> int \<Rightarrow> nat" where
  "findInitialIndex data horizon = scan_from data horizon 0 0 Infinity"

text \<open>Distance of the entry at an index from the horizon.\<close>

definition dist_at :: "SnapshotMetadata list \<Rightarrow> int \<Rightarrow> nat \<Rightarrow> int" where
  "dist_at data horizon i = \<bar>timestamp (data ! i) - horizon\<bar>"

text \<open>
  \<open>first_argmin data horizon n k\<close>: among the first \<open>n\<close> entries, \<open>k\<close> is the lowest index
  whose distance from the horizon is minimal.
\<close>

definition first_argmin :: "SnapshotMetadata list \<Rightarrow> int \<Rightarrow> nat \<Rightarrow> nat \<Rightarrow> bool" where
  "first_argmin data horizon n k \<longleftrightarrow>
     k < n \<and>
     (\<forall>j<n. dist_at data horizon k \<le> dist_at data horizon j) \<and>
     (\<forall>j<k. dist_at data horizon k < dist_at data horizon j)"

section \<open>Index generator\<close>

text \<open>
  \<open>fetch_api.ts\<close>, \<open>getJsonFiles\<close>: every indexed file gets
  \<open>timestamp: Math.floor(stats.mtimeMs / 1000)\<close>, whole seconds since the epoch, from the
  file's modification time in milliseconds. The viewer reads \<open>path\<close> and \<open>timestamp\<close> of
  such an entry; the generator writes no satellite fields.
\<close>

definition index_timestamp :: "real \<Rightarrow> int" where
  "index_timestamp mtimeMs = \<lfloor>mtimeMs / 1000\<rfloor>"

text \<open>\<open>relativePath.replace(/\\/g, '/')\<close>: every backslash becomes a slash.\<close>

definition replace_backslashes :: "string \<Rightarrow> string" where
  "replace_backslashes s = map (\<lambda>c. if c = CHR 0x5C then CHR ''/'' else c) s"

definition index_entry :: "string \<Rightarrow> real \<Rightarrow> SnapshotMetadata" where
  "index_entry relativePath mtimeMs =
     \<lparr>path = ''data/'' @ replace_backslashes relativePath,
      timestamp = index_timestamp mtimeMs,
      satellite_ir108 = None, satellite_rgb_naturalenhncd = None\<rparr>"

text \<open>
  What "the most recent two days" means in the unit of the generated store: the entry's
  second count is at least the second count of the instant two days before \<open>now\<close>
  (\<open>now\<close> in milliseconds, as \<open>Date.now()\<close> gives it).
\<close>

definition within_two_days :: "int \<Rightarrow> SnapshotMetadata \<Rightarrow> bool" where
  "within_two_days now meta \<longleftrightarrow> timestamp meta \<ge> twoDaysAgo now div 1000"

section \<open>The data hook as a state machine\<close>

text \<open>
  The three loading messages are French string literals and one template with two numbers;
  they are kept apart by a constructor each.
\<close>

datatype LoadingMessage =
    MsgMetadata
  | MsgPrefetch
  | MsgPrefetchCount nat nat
  | MsgReady

text \<open>
  The eight \<open>useState\<close> cells of \<open>useCycloneData\<close>. A cell holds the value last passed
  to its setter.
\<close>

record HookState =
  metadata :: "SnapshotMetadata list"
  currentSnapshot :: "LoadedSnapshot option"
  currentMetadata :: "SnapshotMetadata option"
  isLoading :: bool
  loadingMessage :: LoadingMessage
  loadingProgress :: nat
  error :: "string option"
  defaultIndex :: nat

text \<open>Where \<open>init\<close> is suspended: at one of its three awaits, or it has returned.\<close>

datatype init_pc = AwaitMetadata | AwaitPrefetch | AwaitDefault | Returned

text \<open>
  The hook's cells together with what the closures hold: the effect's \<open>mounted\<close> flag, the
  locals of \<open>init\<close> (\<open>data\<close>, \<open>snapshotsToPrefetch\<close>, \<open>initialIndex\<close>, \<open>completed\<close>), the
  positions of the prefetch entries that have not settled yet, the number of \<open>loadSnapshot\<close>
  calls suspended at their await, and what \<open>console.error\<close> has received.
\<close>

record World =
  hook :: HookState
  mounted :: bool
  pc :: init_pc
  init_data :: "SnapshotMetadata list"
  init_prefetch :: "SnapshotMetadata list"
  init_index :: nat
  init_completed :: nat
  pending :: "nat list"
  inflight :: nat
  console :: "thrown list"

text \<open>The state right after the effect has started \<open>init\<close>, suspended at \<open>loadMetadata()\<close>.\<close>

definition mount :: World where
  "mount =
     \<lparr>hook = \<lparr>metadata = [], currentSnapshot = None, currentMetadata = None, isLoading = True,
              loadingMessage = MsgMetadata, loadingProgress = 0, error = None,
              defaultIndex = 0\<rparr>,
      mounted = True, pc = AwaitMetadata, init_data = [], init_prefetch = [], init_index = 0,
      init_completed = 0, pending = [], inflight = 0, console = []\<rparr>"

text \<open>\<open>err instanceof Error ? err.message : 'Erreur inconnue'\<close>\<close>

definition error_message :: "thrown \<Rightarrow> string" where
  "error_message err = (case err of ErrorObject msg \<Rightarrow> msg | OtherValue \<Rightarrow> ''Erreur inconnue'')"

text \<open>
  JavaScript numbers are IEEE 754 doubles. \<open>to_double\<close> rounds a rational to the nearest
  double, ties to the even significand, for magnitudes in the normal range (53 significant
  bits, exponent found from the bit lengths of numerator and denominator); overflow and
  subnormal numbers do not arise for the ratios below.
\<close>

function bit_length :: "int \<Rightarrow> nat" where
  "bit_length n = (if n \<le> 0 then 0 else Suc (bit_length (n div 2)))"
  by pat_completeness auto
termination
  by (relation "measure nat") auto

declare bit_length.simps [simp del]

definition pow2 :: "int \<Rightarrow> rat" where
  "pow2 e = (if e \<ge> 0 then 2 ^ nat e else 1 / 2 ^ nat (- e))"

definition round_half_even :: "rat \<Rightarrow> int" where
  "round_half_even x =
     (let f = \<lfloor>x\<rfloor>; r = x - of_int f
      in if r < 1 / 2 then f else if r > 1 / 2 then f + 1 else if even f then f else f + 1)"

text \<open>For positive \<open>x\<close>, the \<open>e\<close> with \<open>2 ^ e \<le> x < 2 ^ (e + 1)\<close>.\<close>

definition binary_exponent :: "rat \<Rightarrow> int" where
  "binary_exponent x =
     (let (p, q) = quotient_of x;
          d = int (bit_length p) - int (bit_length q)
      in if pow2 d \<le> x then d else d - 1)"

definition to_double :: "rat \<Rightarrow> rat" where
  "to_double x =
     (if x = 0 then 0
      else let m = \<bar>x\<bar>; ulp = pow2 (binary_exponent m - 52)
           in sgn x * of_int (round_half_even (m / ulp)) * ulp)"

text \<open>\<open>Math.round\<close>: the nearest integer, a half going up.\<close>

definition math_round :: "rat \<Rightarrow> int" where
  "math_round x = \<lfloor>x + 1 / 2\<rfloor>"

text \<open>
  \<open>Math.round((completed / total) * 100)\<close>: the quotient of the two counters is rounded to a
  double, so is its product with 100, and the result is rounded to an integer. The code
  computes it only for \<open>total > 0\<close>.
\<close>

definition progress_percent :: "nat \<Rightarrow> nat \<Rightarrow> nat" where
  "progress_percent c n =
     nat (math_round (to_double (to_double (of_nat c / of_nat n) * 100)))"

text \<open>\<open>meta.satellite_ir108?.file\<close> as a condition: the field is there and its path is not empty.\<close>

definition has_file :: "SatelliteImageData option \<Rightarrow> bool" where
  "has_file sat = (case sat of None \<Rightarrow> False | Some d \<Rightarrow> image_file d \<noteq> [])"

text \<open>
  \<open>Promise.all\<close> over promises of no value, given their outcomes in the order they settle:
  the first rejection is the result, otherwise it is fulfilled.
\<close>

fun promise_all :: "unit settled list \<Rightarrow> unit settled" where
  "promise_all [] = Fulfilled ()"
| "promise_all (Fulfilled u # ps) = promise_all ps"
| "promise_all (Rejected err # ps) = Rejected err"

text \<open>
  The body of one prefetch entry up to its last await: the snapshot fetch, then the image
  preloads that were pushed, joined. \<open>rgbFirst\<close> says that the RGB image settles before the
  infrared one.
\<close>

definition prefetch_entry ::
  "SnapshotMetadata \<Rightarrow> LoadedSnapshot settled \<Rightarrow> unit settled \<Rightarrow> unit settled \<Rightarrow> bool \<Rightarrow> unit settled" where
  "prefetch_entry meta snap ir rgb rgbFirst =
     (case snap of
        Rejected err \<Rightarrow> Rejected err
      | Fulfilled s \<Rightarrow>
          (let imagePromises =
                 (if has_file (satellite_ir108 meta) then [ir] else []) @
                 (if has_file (satellite_rgb_naturalenhncd meta) then [rgb] else [])
           in promise_all (if rgbFirst then rev imagePromises else imagePromises)))"

text \<open>The \<open>catch\<close> block of \<open>init\<close>.\<close>

definition init_catch :: "thrown \<Rightarrow> World \<Rightarrow> World" where
  "init_catch err w =
     (if \<not> mounted w then w\<lparr>pc := Returned\<rparr>
      else w\<lparr>hook := (hook w)\<lparr>error := Some (error_message err), isLoading := False\<rparr>,
             pc := Returned\<rparr>)"

text \<open>
  From the end of the prefetch join to the await of the default snapshot:
  \<open>if (!mounted) return\<close>, the ready message, progress 100.
\<close>

definition after_prefetch :: "World \<Rightarrow> World" where
  "after_prefetch w =
     (if \<not> mounted w then w\<lparr>pc := Returned\<rparr>
      else w\<lparr>hook := (hook w)\<lparr>loadingMessage := MsgReady, loadingProgress := 100\<rparr>,
             pc := AwaitDefault\<rparr>)"

text \<open>
  \<open>init\<close> resumed after \<open>await loadMetadata()\<close>; \<open>now\<close> is what \<open>Date.now()\<close> returns in
  this continuation.
\<close>

definition on_metadata :: "int \<Rightarrow> SnapshotMetadata list settled \<Rightarrow> World \<Rightarrow> World" where
  "on_metadata now res w =
     (case res of
        Rejected err \<Rightarrow> init_catch err w
      | Fulfilled d \<Rightarrow>
          if \<not> mounted w then w\<lparr>pc := Returned\<rparr>
          else
            (let w1 = w\<lparr>hook := (hook w)\<lparr>metadata := d\<rparr>, init_data := d\<rparr> in
             if length d = 0 then w1\<lparr>hook := (hook w1)\<lparr>isLoading := False\<rparr>, pc := Returned\<rparr>
             else
               (let horizon = twoDaysAgo now;
                    pre = snapshotsToPrefetch horizon d;
                    idx = findInitialIndex d horizon;
                    w2 = w1\<lparr>hook := (hook w1)\<lparr>defaultIndex := idx, loadingMessage := MsgPrefetch\<rparr>,
                            init_prefetch := pre, init_index := idx, init_completed := 0\<rparr>
                in if length pre > 0
                   then w2\<lparr>pc := AwaitPrefetch, pending := [0..<length pre]\<rparr>
                   else after_prefetch w2)))"

text \<open>
  One prefetch entry settles. A rejection reaches the \<open>catch\<close> block only if the join has
  not been rejected before; a fulfilled entry counts itself, reports progress when mounted,
  and the last one of an unbroken join lets \<open>init\<close> go on.
\<close>

definition on_entry ::
  "nat \<Rightarrow> LoadedSnapshot settled \<Rightarrow> unit settled \<Rightarrow> unit settled \<Rightarrow> bool \<Rightarrow> World \<Rightarrow> World" where
  "on_entry k snap ir rgb rgbFirst w =
     (let w' = w\<lparr>pending := removeAll k (pending w)\<rparr> in
      case prefetch_entry (init_prefetch w ! k) snap ir rgb rgbFirst of
        Rejected err \<Rightarrow> if pc w = AwaitPrefetch then init_catch err w' else w'
      | Fulfilled u \<Rightarrow>
          (let c = init_completed w + 1;
               n = length (init_prefetch w);
               w1 = w'\<lparr>init_completed := c\<rparr>;
               w2 = (if mounted w
                     then w1\<lparr>hook := (hook w1)\<lparr>loadingProgress := progress_percent c n,
                                               loadingMessage := MsgPrefetchCount c n\<rparr>\<rparr>
                     else w1)
           in if pending w2 = [] \<and> pc w = AwaitPrefetch then after_prefetch w2 else w2))"

text \<open>\<open>init\<close> resumed after \<open>await fetchSnapshotData(data[initialIndex])\<close>.\<close>

definition on_default :: "LoadedSnapshot settled \<Rightarrow> World \<Rightarrow> World" where
  "on_default res w =
     (case res of
        Rejected err \<Rightarrow> init_catch err w
      | Fulfilled s \<Rightarrow>
          if \<not> mounted w then w\<lparr>pc := Returned\<rparr>
          else w\<lparr>hook := (hook w)\<lparr>currentSnapshot := Some s,
                                   currentMetadata := Some (init_data w ! init_index w),
                                   isLoading := False\<rparr>,
                 pc := Returned\<rparr>)"

text \<open>
  \<open>loadSnapshot(index)\<close> up to its await: the bounds check against the hook's metadata,
  then \<open>setCurrentMetadata(meta)\<close>, then the fetch is started.
\<close>

definition loadSnapshot_call :: "int \<Rightarrow> World \<Rightarrow> World" where
  "loadSnapshot_call index w =
     (if index < 0 \<or> index \<ge> int (length (metadata (hook w))) then w
      else w\<lparr>hook := (hook w)\<lparr>currentMetadata := Some (metadata (hook w) ! nat index)\<rparr>,
             inflight := inflight w + 1\<rparr>)"

text \<open>
  \<open>loadSnapshot\<close> resumed after its await, inside \<open>try\<close>: the snapshot is published, or the
  rejection goes to \<open>console.error\<close>. Neither branch reads \<open>mounted\<close>.
\<close>

definition loadSnapshot_resume :: "LoadedSnapshot settled \<Rightarrow> World \<Rightarrow> World" where
  "loadSnapshot_resume res w =
     (let w' = w\<lparr>inflight := inflight w - 1\<rparr> in
      case res of
        Fulfilled s \<Rightarrow> w'\<lparr>hook := (hook w')\<lparr>currentSnapshot := Some s\<rparr>\<rparr>
      | Rejected err \<Rightarrow> w'\<lparr>console := console w' @ [err]\<rparr>)"

text \<open>What can happen to a mounted or unmounted hook, one continuation at a time.\<close>

datatype event =
    MetadataSettled int "SnapshotMetadata list settled"
  | EntrySettled nat "LoadedSnapshot settled" "unit settled" "unit settled" bool
  | DefaultSettled "LoadedSnapshot settled"
  | Unmount
  | LoadSnapshotCall int
  | LoadSnapshotSettled "LoadedSnapshot settled"

text \<open>
  One event, \<open>None\<close> when nothing is waiting for it: a settlement needs the matching await
  (or a suspended \<open>loadSnapshot\<close>), an entry settles once.
\<close>

fun step :: "World \<Rightarrow> event \<Rightarrow> World option" where
  "step w (MetadataSettled now res) =
     (if pc w = AwaitMetadata then Some (on_metadata now res w) else None)"
| "step w (EntrySettled k snap ir rgb rgbFirst) =
     (if k \<in> set (pending w) \<and> k < length (init_prefetch w)
      then Some (on_entry k snap ir rgb rgbFirst w) else None)"
| "step w (DefaultSettled res) =
     (if pc w = AwaitDefault then Some (on_default res w) else None)"
| "step w Unmount = Some (w\<lparr>mounted := False\<rparr>)"
| "step w (LoadSnapshotCall index) = Some (loadSnapshot_call index w)"
| "step w (LoadSnapshotSettled res) =
     (if inflight w > 0 then Some (loadSnapshot_resume res w) else None)"

fun run :: "World \<Rightarrow> event list \<Rightarrow> World option" where
  "run w [] = Some w"
| "run w (e # es) = (case step w e of None \<Rightarrow> None | Some w' \<Rightarrow> run w' es)"

text \<open>A prefetch entry that settles fulfilled, for the prefetch list \<open>pre\<close>.\<close>

fun entry_fulfilled :: "SnapshotMetadata list \<Rightarrow> event \<Rightarrow> bool" where
  "entry_fulfilled pre (EntrySettled k snap ir rgb rgbFirst) =
     (k < length pre \<and> prefetch_entry (pre ! k) snap ir rgb rgbFirst = Fulfilled ())"
| "entry_fulfilled pre e = False"

text \<open>
  While the prefetch join is open on a mounted hook: no error, no snapshot published, the
  pending positions lie in the prefetch list, and \<open>init\<close> waits for the join unless nothing
  is pending any more.
\<close>

definition prefetch_inv :: "SnapshotMetadata list \<Rightarrow> World \<Rightarrow> bool" where
  "prefetch_inv pre w \<longleftrightarrow>
     mounted w \<and> error (hook w) = None \<and> currentSnapshot (hook w) = None \<and>
     init_prefetch w = pre \<and> set (pending w) \<subseteq> {..<length pre} \<and>
     (pc w = AwaitPrefetch \<or> pending w = [])"

section \<open>Snapshot loader\<close>

text \<open>
  Modelled from the spec: \<open>fetchSnapshotData\<close> lives in \<open>utils/api.ts\<close>, which is not among
  the sources. The specification describes it as memoized by the metadata's trajectory
  reference, with a cache that is never evicted, and with callers of a key that is already
  in the cache sharing the stored request instead of issuing another one. A cache slot is
  a request in flight, a loaded snapshot, or a failure; \<open>requests\<close> lists the network
  requests issued, oldest first. A caller gets the promise stored under the key, which is
  identified here by the key.
\<close>

datatype slot = InFlight | Loaded LoadedSnapshot | Failed thrown

record Loader =
  cache :: "string \<rightharpoonup> slot"
  requests :: "string list"

definition fetchSnapshotData :: "SnapshotMetadata \<Rightarrow> Loader \<Rightarrow> string \<times> Loader" where
  "fetchSnapshotData meta l =
     (let key = path meta in
      case cache l key of
        Some s \<Rightarrow> (key, l)
      | None \<Rightarrow> (key, l\<lparr>cache := (cache l)(key \<mapsto> InFlight), requests := requests l @ [key]\<rparr>))"

text \<open>The network answers the request in flight for a key.\<close>

definition settle_request :: "string \<Rightarrow> LoadedSnapshot settled \<Rightarrow> Loader \<Rightarrow> Loader option" where
  "settle_request key res l =
     (case cache l key of
        Some InFlight \<Rightarrow>
          Some (l\<lparr>cache := (cache l)(key \<mapsto> (case res of Fulfilled s \<Rightarrow> Loaded s
                                                    | Rejected err \<Rightarrow> Failed err))\<rparr>)
      | _ \<Rightarrow> None)"

datatype loader_event = Fetch SnapshotMetadata | Settle string "LoadedSnapshot settled"

fun loader_step :: "Loader \<Rightarrow> loader_event \<Rightarrow> Loader option" where
  "loader_step l (Fetch meta) = Some (snd (fetchSnapshotData meta l))"
| "loader_step l (Settle key res) = settle_request key res l"

fun loader_run :: "Loader \<Rightarrow> loader_event list \<Rightarrow> Loader option" where
  "loader_run l [] = Some l"
| "loader_run l (e # es) = (case loader_step l e of None \<Rightarrow> None | Some l' \<Rightarrow> loader_run l' es)"

fun settles :: "string \<Rightarrow> loader_event \<Rightarrow> bool" where
  "settles key (Settle key' res) = (key' = key)"
| "settles key (Fetch meta) = False"

section \<open>Properties of the default-index scan\<close>

lemma scan_from_invariant:
  assumes "i \<le> length data"
    and "(i = 0 \<and> minDiff = Infinity) \<or>
         (minDiff = Finite (dist_at data horizon initialIndex) \<and> first_argmin data horizon i initialIndex)"
    and "data \<noteq> []"
  shows "first_argmin data horizon (length data) (scan_from data horizon i initialIndex minDiff)"
  using assms
proof (induction data horizon i initialIndex minDiff rule: scan_from.induct)
  case (1 data horizon i initialIndex minDiff)
  show ?case
  proof (cases "i < length data")
    case False
    with "1.prems" have "i = length data" "i \<noteq> 0" by auto
    with "1.prems" show ?thesis
      by (subst scan_from.simps) auto
  next
    case True
    define diff where "diff = \<bar>timestamp (data ! i) - horizon\<bar>"
    have diff_eq: "diff = dist_at data horizon i"
      by (simp add: diff_def dist_at_def)
    show ?thesis
    proof (cases "less_min diff minDiff")
      case lt: True
      have new: "first_argmin data horizon (i + 1) i"
      proof (cases "i = 0")
        case True
        then show ?thesis by (simp add: first_argmin_def)
      next
        case False
        with "1.prems" have m: "minDiff = Finite (dist_at data horizon initialIndex)"
          and fa: "first_argmin data horizon i initialIndex" by auto
        from lt m diff_eq have less: "dist_at data horizon i < dist_at data horizon initialIndex"
          by simp
        show ?thesis
          unfolding first_argmin_def
        proof (intro conjI allI impI)
          show "i < i + 1" by simp
        next
          fix j assume "j < i + 1"
          then consider "j = i" | "j < i" by linarith
          then show "dist_at data horizon i \<le> dist_at data horizon j"
          proof cases
            case 1 then show ?thesis by simp
          next
            case 2
            with fa have "dist_at data horizon initialIndex \<le> dist_at data horizon j"
              by (simp add: first_argmin_def)
            with less show ?thesis by simp
          qed
        next
          fix j assume "j < i"
          with fa have "dist_at data horizon initialIndex \<le> dist_at data horizon j"
            by (simp add: first_argmin_def)
          with less show "dist_at data horizon i < dist_at data horizon j" by simp
        qed
      qed
      have "first_argmin data horizon (length data)
              (scan_from data horizon (i + 1) i (Finite diff))"
        using "1.IH"(1) [OF True diff_def lt] True new diff_eq "1.prems"(3)
        by simp
      then show ?thesis
        using True lt by (subst scan_from.simps) (simp add: diff_def Let_def)
    next
      case ge: False
      then have nz: "minDiff \<noteq> Infinity" by (cases minDiff) auto
      with "1.prems" have m: "minDiff = Finite (dist_at data horizon initialIndex)"
        and fa: "first_argmin data horizon i initialIndex" by auto
      from ge m diff_eq have le: "dist_at data horizon initialIndex \<le> dist_at data horizon i"
        by simp
      have keep: "first_argmin data horizon (i + 1) initialIndex"
        unfolding first_argmin_def
      proof (intro conjI allI impI)
        from fa show "initialIndex < i + 1" by (simp add: first_argmin_def)
      next
        fix j assume "j < i + 1"
        then consider "j = i" | "j < i" by linarith
        then show "dist_at data horizon initialIndex \<le> dist_at data horizon j"
        proof cases
          case 1 with le show ?thesis by simp
        next
          case 2 with fa show ?thesis by (simp add: first_argmin_def)
        qed
      next
        fix j assume "j < initialIndex"
        with fa show "dist_at data horizon initialIndex < dist_at data horizon j"
          by (simp add: first_argmin_def)
      qed
      have "first_argmin data horizon (length data)
              (scan_from data horizon (i + 1) initialIndex minDiff)"
        using "1.IH"(2) [OF True diff_def ge] True keep m "1.prems"(3)
        by simp
      then show ?thesis
        using True ge by (subst scan_from.simps) (simp add: diff_def Let_def)
    qed
  qed
qed

lemma findInitialIndex_first_argmin:
  "data \<noteq> [] \<Longrightarrow> first_argmin data horizon (length data) (findInitialIndex data horizon)"
  unfolding findInitialIndex_def by (rule scan_from_invariant) auto

lemma findInitialIndex_in_range:
  "data \<noteq> [] \<Longrightarrow> findInitialIndex data horizon < length data"
  using findInitialIndex_first_argmin [of data horizon] by (simp add: first_argmin_def)

section \<open>Progress percentage\<close>

text \<open>
  The double arithmetic shows: 23 of 40 is reported as 57, since the double nearest to
  0.575 lies below it. A finished prefetch reports exactly 100.
\<close>

lemma progress_percent_23_of_40: "progress_percent 23 40 = 57"
  by code_simp

lemma to_double_one: "to_double 1 = 1"
  by code_simp

lemma to_double_hundred: "to_double 100 = 100"
  by code_simp

lemma math_round_hundred: "math_round 100 = 100"
  by code_simp

lemma progress_percent_complete:
  assumes "n > 0"
  shows "progress_percent n n = 100"
  using assms
  by (simp add: progress_percent_def to_double_one to_double_hundred math_round_hundred)

section \<open>Overlay bounds\<close>

text \<open>
  C4. \<open>bboxToLeafletBounds\<close> sends \<open>[minLon, minLat, maxLon, maxLat]\<close> to
  \<open>[[minLat, minLon], [maxLat, maxLon]]\<close> for all four numbers, whatever their range (the
  values are moved, never clamped or checked), and the satellite fetcher's bounding box
  \<open>[21.1, -41, 103, 21.1]\<close> becomes \<open>[[-41, 21.1], [21.1, 103]]\<close>.
\<close>

theorem bboxToLeafletBounds_swaps_axes:
  "bboxToLeafletBounds (minLon, minLat, maxLon, maxLat) = ((minLat, minLon), (maxLat, maxLon))
   \<and> bboxToLeafletBounds (21.1, -41, 103, 21.1) = ((-41, 21.1), (21.1, 103))"
  by (simp add: bboxToLeafletBounds_def)

section \<open>Default index\<close>

text \<open>
  C1. When the metadata fetch delivers a non-empty array to the mounted hook, the published
  \<open>defaultIndex\<close> is the result of the scan; it is a position of the array, no entry is
  nearer to the horizon \<open>now - 2 days\<close> than the entry there, and every entry before it is
  strictly farther away, so among equally near entries the lowest index is taken.
\<close>

theorem defaultIndex_nearest_to_horizon:
  assumes "data \<noteq> []"
  shows "let horizon = twoDaysAgo now;
             k = defaultIndex (hook (on_metadata now (Fulfilled data) mount))
         in step mount (MetadataSettled now (Fulfilled data))
              = Some (on_metadata now (Fulfilled data) mount)
            \<and> k = findInitialIndex data horizon
            \<and> k < length data
            \<and> (\<forall>j<length data.
                  \<bar>timestamp (data ! k) - horizon\<bar> \<le> \<bar>timestamp (data ! j) - horizon\<bar>)
            \<and> (\<forall>j<k. \<bar>timestamp (data ! k) - horizon\<bar> < \<bar>timestamp (data ! j) - horizon\<bar>)"
proof -
  define horizon where "horizon = twoDaysAgo now"
  have k: "defaultIndex (hook (on_metadata now (Fulfilled data) mount))
             = findInitialIndex data horizon"
    using assms
    by (simp add: on_metadata_def mount_def Let_def after_prefetch_def horizon_def)
  have "first_argmin data horizon (length data) (findInitialIndex data horizon)"
    using assms by (rule findInitialIndex_first_argmin)
  then show ?thesis
    unfolding Let_def k horizon_def [symmetric]
    by (simp add: first_argmin_def dist_at_def mount_def)
qed

text \<open>
  The specification's example: timestamps 100, 200, 300 and horizon 250. The entries at
  200 and 300 are equally near, and index 1 is published.
\<close>

theorem defaultIndex_nearest_to_horizon_witness:
  "[\<lparr>path = ''a'', timestamp = 100, satellite_ir108 = None, satellite_rgb_naturalenhncd = None\<rparr>,
    \<lparr>path = ''b'', timestamp = 200, satellite_ir108 = None, satellite_rgb_naturalenhncd = None\<rparr>,
    \<lparr>path = ''c'', timestamp = 300, satellite_ir108 = None, satellite_rgb_naturalenhncd = None\<rparr>]
     \<noteq> []
   \<and> twoDaysAgo 172800250 = 250
   \<and> defaultIndex (hook (on_metadata 172800250 (Fulfilled
        [\<lparr>path = ''a'', timestamp = 100, satellite_ir108 = None,
          satellite_rgb_naturalenhncd = None\<rparr>,
         \<lparr>path = ''b'', timestamp = 200, satellite_ir108 = None,
          satellite_rgb_naturalenhncd = None\<rparr>,
         \<lparr>path = ''c'', timestamp = 300, satellite_ir108 = None,
          satellite_rgb_naturalenhncd = None\<rparr>]) mount)) = 1"
  using defaultIndex_nearest_to_horizon [of
        "[\<lparr>path = ''a'', timestamp = 100, satellite_ir108 = None,
           satellite_rgb_naturalenhncd = None\<rparr>,
          \<lparr>path = ''b'', timestamp = 200, satellite_ir108 = None,
           satellite_rgb_naturalenhncd = None\<rparr>,
          \<lparr>path = ''c'', timestamp = 300, satellite_ir108 = None,
           satellite_rgb_naturalenhncd = None\<rparr>]" 172800250]
  by (simp add: Let_def twoDaysAgo_def findInitialIndex_def scan_from.simps)

section \<open>Prefetch window and the generated index\<close>

lemma index_timestamp_le:
  assumes "mtimeMs \<le> real_of_int now" and "now \<ge> 0"
  shows "index_timestamp mtimeMs \<le> now div 1000"
proof -
  have "mtimeMs / 1000 \<le> real_of_int now / 1000" using assms by simp
  then have "\<lfloor>mtimeMs / 1000\<rfloor> \<le> \<lfloor>real_of_int now / 1000\<rfloor>" by (rule floor_mono)
  also have "\<lfloor>real_of_int now / 1000\<rfloor> = now div 1000"
    using floor_divide_of_int_eq [of now 1000, where ?'a = real] by simp
  finally show ?thesis by (simp add: index_timestamp_def)
qed

lemma generated_entry_not_prefetched:
  assumes "mtimeMs \<le> real_of_int now" and "now \<ge> 172972973"
  shows "\<not> timestamp (index_entry p mtimeMs) \<ge> twoDaysAgo now"
proof -
  have "index_timestamp mtimeMs \<le> now div 1000"
    using assms by (intro index_timestamp_le) auto
  moreover have "now div 1000 < now - 172800000" using assms(2) by linarith
  ultimately show ?thesis by (simp add: index_entry_def twoDaysAgo_def)
qed

text \<open>
  Once the clock is past the third day of 1970, no file of the generated index that was
  modified before \<open>now\<close> passes the filter: its second count is below the millisecond
  horizon.
\<close>

lemma generated_store_never_prefetched:
  assumes "\<forall>(p, mtimeMs) \<in> set files. mtimeMs \<le> real_of_int now" and "now \<ge> 172972973"
  shows "snapshotsToPrefetch (twoDaysAgo now)
           (map (\<lambda>(p, mtimeMs). index_entry p mtimeMs) files) = []"
  using assms generated_entry_not_prefetched
  by (auto simp add: snapshotsToPrefetch_def filter_empty_conv)

text \<open>
  C2. A file modified one hour before \<open>now = 1700000000000\<close> gets the timestamp
  \<open>1699996400\<close> (seconds) from the generator and lies within the last two days, yet the
  filter compares it with \<open>1699827200000\<close> (milliseconds) and the prefetch list is empty.
\<close>

theorem recent_generated_entry_not_prefetched:
  "within_two_days 1700000000000
     (index_entry ''2023-11-14/21-13-20/cyclone_list.json'' 1699996400000)
   \<and> timestamp (index_entry ''2023-11-14/21-13-20/cyclone_list.json'' 1699996400000)
       = 1699996400
   \<and> twoDaysAgo 1700000000000 = 1699827200000
   \<and> init_prefetch (on_metadata 1700000000000
         (Fulfilled [index_entry ''2023-11-14/21-13-20/cyclone_list.json'' 1699996400000])
         mount) = []"
  by (simp add: within_two_days_def index_entry_def index_timestamp_def twoDaysAgo_def
      on_metadata_def mount_def Let_def snapshotsToPrefetch_def after_prefetch_def)

section \<open>Initialization with an empty store\<close>

text \<open>
  C6. When the metadata fetch delivers the empty array, \<open>init\<close> returns with
  \<open>isLoading = false\<close>, no current snapshot and no error.
\<close>

theorem empty_store_completes:
  "step mount (MetadataSettled now (Fulfilled [])) = Some (on_metadata now (Fulfilled []) mount)
   \<and> pc (on_metadata now (Fulfilled []) mount) = Returned
   \<and> isLoading (hook (on_metadata now (Fulfilled []) mount)) = False
   \<and> currentSnapshot (hook (on_metadata now (Fulfilled []) mount)) = None
   \<and> error (hook (on_metadata now (Fulfilled []) mount)) = None"
  by (simp add: on_metadata_def mount_def)

section \<open>Navigation\<close>

text \<open>
  C7. For an index below zero or at least the length of the hook's metadata,
  \<open>loadSnapshot(index)\<close> returns without raising and leaves the whole state as it was: no
  cell of the hook changes, nothing is fetched, nothing is logged.
\<close>

theorem loadSnapshot_out_of_range_noop:
  assumes "index < 0 \<or> index \<ge> int (length (metadata (hook w)))"
  shows "step w (LoadSnapshotCall index) = Some w"
  using assms by (auto simp add: loadSnapshot_call_def)

text \<open>The indices \<open>-1\<close> and \<open>N\<close> on a hook that holds \<open>N = 1\<close> entry.\<close>

theorem loadSnapshot_out_of_range_noop_witness:
  "(- 1 < (0::int) \<or> - 1 \<ge> int (length (metadata (hook (on_metadata 1700000000000
       (Fulfilled [\<lparr>path = ''data/t.json'', timestamp = 0, satellite_ir108 = None,
                    satellite_rgb_naturalenhncd = None\<rparr>]) mount)))))
   \<and> step (on_metadata 1700000000000
       (Fulfilled [\<lparr>path = ''data/t.json'', timestamp = 0, satellite_ir108 = None,
                    satellite_rgb_naturalenhncd = None\<rparr>]) mount) (LoadSnapshotCall (- 1))
     = Some (on_metadata 1700000000000
       (Fulfilled [\<lparr>path = ''data/t.json'', timestamp = 0, satellite_ir108 = None,
                    satellite_rgb_naturalenhncd = None\<rparr>]) mount)
   \<and> length (metadata (hook (on_metadata 1700000000000
       (Fulfilled [\<lparr>path = ''data/t.json'', timestamp = 0, satellite_ir108 = None,
                    satellite_rgb_naturalenhncd = None\<rparr>]) mount))) = 1
   \<and> step (on_metadata 1700000000000
       (Fulfilled [\<lparr>path = ''data/t.json'', timestamp = 0, satellite_ir108 = None,
                    satellite_rgb_naturalenhncd = None\<rparr>]) mount) (LoadSnapshotCall 1)
     = Some (on_metadata 1700000000000
       (Fulfilled [\<lparr>path = ''data/t.json'', timestamp = 0, satellite_ir108 = None,
                    satellite_rgb_naturalenhncd = None\<rparr>]) mount)"
proof -
  let ?w = "on_metadata 1700000000000
       (Fulfilled [\<lparr>path = ''data/t.json'', timestamp = 0, satellite_ir108 = None,
                    satellite_rgb_naturalenhncd = None\<rparr>]) mount"
  have len: "length (metadata (hook ?w)) = 1"
    by (simp add: on_metadata_def mount_def Let_def snapshotsToPrefetch_def after_prefetch_def
        twoDaysAgo_def)
  have low: "- 1 < (0::int) \<or> - 1 \<ge> int (length (metadata (hook ?w)))" by simp
  have high: "1 < (0::int) \<or> 1 \<ge> int (length (metadata (hook ?w)))" using len by simp
  show ?thesis
    using low len loadSnapshot_out_of_range_noop [OF low] loadSnapshot_out_of_range_noop [OF high]
    by simp
qed

text \<open>
  C8. For an index in range, \<open>loadSnapshot(index)\<close> sets \<open>currentMetadata\<close> to the entry at
  that index before it awaits, leaving \<open>currentSnapshot\<close> alone; when the fetch then
  rejects, the continuation ends normally, the hook's cells are exactly as before the
  rejection, and the thrown value has gone to \<open>console.error\<close>.
\<close>

theorem loadSnapshot_failure_swallowed:
  assumes "0 \<le> index" and "index < int (length (metadata (hook w)))"
  shows "let w1 = loadSnapshot_call index w;
             w2 = loadSnapshot_resume (Rejected err) w1
         in step w (LoadSnapshotCall index) = Some w1
            \<and> currentMetadata (hook w1) = Some (metadata (hook w) ! nat index)
            \<and> currentSnapshot (hook w1) = currentSnapshot (hook w)
            \<and> step w1 (LoadSnapshotSettled (Rejected err)) = Some w2
            \<and> hook w2 = hook w1
            \<and> console w2 = console w @ [err]"
  using assms by (simp add: loadSnapshot_call_def loadSnapshot_resume_def Let_def)

text \<open>One stored entry, \<open>loadSnapshot(0)\<close>, and a fetch that fails.\<close>

theorem loadSnapshot_failure_swallowed_witness:
  "let w = on_metadata 1700000000000
             (Fulfilled [\<lparr>path = ''data/t.json'', timestamp = 0, satellite_ir108 = None,
                          satellite_rgb_naturalenhncd = None\<rparr>]) mount;
       w1 = loadSnapshot_call 0 w;
       w2 = loadSnapshot_resume (Rejected (ErrorObject ''Failed to fetch'')) w1
   in (0::int) \<le> 0 \<and> 0 < int (length (metadata (hook w)))
      \<and> step w (LoadSnapshotCall 0) = Some w1
      \<and> currentMetadata (hook w1) = Some (metadata (hook w) ! nat 0)
      \<and> currentSnapshot (hook w1) = currentSnapshot (hook w)
      \<and> step w1 (LoadSnapshotSettled (Rejected (ErrorObject ''Failed to fetch''))) = Some w2
      \<and> hook w2 = hook w1
      \<and> console w2 = [ErrorObject ''Failed to fetch'']"
proof -
  let ?w = "on_metadata 1700000000000
             (Fulfilled [\<lparr>path = ''data/t.json'', timestamp = 0, satellite_ir108 = None,
                          satellite_rgb_naturalenhncd = None\<rparr>]) mount"
  have len: "(0::int) < int (length (metadata (hook ?w)))"
    by (simp add: on_metadata_def mount_def Let_def snapshotsToPrefetch_def after_prefetch_def
        twoDaysAgo_def)
  have c: "console ?w = []"
    by (simp add: on_metadata_def mount_def Let_def snapshotsToPrefetch_def after_prefetch_def
        twoDaysAgo_def)
  have z: "(0::int) \<le> 0" by simp
  show ?thesis
    using len c loadSnapshot_failure_swallowed [OF z len, of "ErrorObject ''Failed to fetch''"]
    by (simp add: Let_def)
qed

text \<open>
  At whatever later moment a suspended \<open>loadSnapshot\<close> sees its fetch rejected, the hook's
  cells stay as they are.
\<close>

lemma loadSnapshot_rejection_keeps_hook:
  assumes "step w (LoadSnapshotSettled (Rejected err)) = Some w'"
  shows "hook w' = hook w \<and> console w' = console w @ [err]"
  using assms by (auto simp add: loadSnapshot_resume_def Let_def split: if_splits)

section \<open>After unmounting\<close>

text \<open>
  Every continuation of \<open>init\<close> checks \<open>mounted\<close> before it writes: once the flag is down,
  the settlement of the metadata fetch, of a prefetch entry or of the default snapshot
  leaves the hook's cells alone.
\<close>

lemma init_continuations_guarded:
  assumes "\<not> mounted w"
    and "step w e = Some w'"
    and "e \<noteq> Unmount" and "\<forall>i. e \<noteq> LoadSnapshotCall i" and "\<forall>r. e \<noteq> LoadSnapshotSettled r"
  shows "hook w' = hook w"
  using assms
  by (cases e)
     (auto simp add: on_metadata_def on_entry_def on_default_def init_catch_def after_prefetch_def
        Let_def split: settled.splits if_splits)

text \<open>
  C9. The continuation of \<open>loadSnapshot\<close> does not check: a store of one old entry is
  loaded and its snapshot \<open>first\<close> published, \<open>loadSnapshot(0)\<close> is called, the component
  unmounts, and the fetch then resolves with \<open>second\<close>. Before that resolution the
  unmounted hook shows \<open>first\<close>, after it \<open>second\<close>.
\<close>

theorem loadSnapshot_publishes_after_unmount:
  "map_option (\<lambda>w. (mounted w, currentSnapshot (hook w)))
     (run mount
        [MetadataSettled 1700000000000 (Fulfilled
           [\<lparr>path = ''data/t.json'', timestamp = 0, satellite_ir108 = None,
             satellite_rgb_naturalenhncd = None\<rparr>]),
         DefaultSettled (Fulfilled ''first''),
         LoadSnapshotCall 0,
         Unmount])
     = Some (False, Some ''first'')
   \<and> map_option (\<lambda>w. (mounted w, currentSnapshot (hook w)))
     (run mount
        [MetadataSettled 1700000000000 (Fulfilled
           [\<lparr>path = ''data/t.json'', timestamp = 0, satellite_ir108 = None,
             satellite_rgb_naturalenhncd = None\<rparr>]),
         DefaultSettled (Fulfilled ''first''),
         LoadSnapshotCall 0,
         Unmount,
         LoadSnapshotSettled (Fulfilled ''second'')])
     = Some (False, Some ''second'')"
  by (simp add: on_metadata_def mount_def Let_def snapshotsToPrefetch_def after_prefetch_def
      twoDaysAgo_def on_default_def loadSnapshot_call_def loadSnapshot_resume_def)

section \<open>The empty store and the default index\<close>

text \<open>
  After the empty array has arrived nothing is in flight, and whatever happens next leaves
  the hook's cells alone.
\<close>

lemma empty_store_step:
  assumes "metadata (hook w) = []" "defaultIndex (hook w) = 0" "pc w = Returned"
    "pending w = []" "inflight w = 0"
    and "step w e = Some w'"
  shows "hook w' = hook w \<and> pc w' = Returned \<and> pending w' = [] \<and> inflight w' = 0"
  using assms by (cases e) (auto simp add: loadSnapshot_call_def split: if_splits)

lemma empty_store_run:
  assumes "run w evs = Some w'"
    and "metadata (hook w) = []" "defaultIndex (hook w) = 0" "pc w = Returned"
    "pending w = []" "inflight w = 0"
  shows "hook w' = hook w"
  using assms
proof (induction evs arbitrary: w)
  case Nil
  then show ?case by simp
next
  case (Cons e es)
  from Cons.prems(1) obtain w1 where s: "step w e = Some w1" and r: "run w1 es = Some w'"
    by (auto split: option.splits)
  from empty_store_step [OF Cons.prems(2-6) s]
  have h: "hook w1 = hook w" "pc w1 = Returned" "pending w1 = []" "inflight w1 = 0" by auto
  have "hook w' = hook w1"
    using Cons.IH [OF r] h Cons.prems by simp
  with h show ?case by simp
qed

text \<open>
  C10. After the metadata fetch has delivered the empty array, and after any events that
  follow, \<open>defaultIndex\<close> is still its initial value 0, which is no position of the empty
  metadata, and \<open>loadSnapshot\<close> called on it returns without any effect.
\<close>

theorem empty_store_keeps_defaultIndex:
  assumes "run mount (MetadataSettled now (Fulfilled []) # evs) = Some w"
  shows "defaultIndex (hook w) = 0
         \<and> length (metadata (hook w)) = 0
         \<and> step w (LoadSnapshotCall (int (defaultIndex (hook w)))) = Some w"
proof -
  let ?w0 = "on_metadata now (Fulfilled []) mount"
  from assms have r: "run ?w0 evs = Some w" by (simp add: mount_def)
  have "hook w = hook ?w0"
    by (rule empty_store_run [OF r]) (simp_all add: on_metadata_def mount_def)
  then have "defaultIndex (hook w) = 0" "metadata (hook w) = []"
    by (simp_all add: on_metadata_def mount_def)
  then show ?thesis by (simp add: loadSnapshot_call_def)
qed

text \<open>The empty store, then \<open>loadSnapshot(0)\<close> and an unmount.\<close>

theorem empty_store_keeps_defaultIndex_witness:
  "run mount [MetadataSettled 1700000000000 (Fulfilled []), LoadSnapshotCall 0, Unmount]
     = Some ((on_metadata 1700000000000 (Fulfilled []) mount)\<lparr>mounted := False\<rparr>)
   \<and> defaultIndex (hook ((on_metadata 1700000000000 (Fulfilled []) mount)\<lparr>mounted := False\<rparr>)) = 0
   \<and> step ((on_metadata 1700000000000 (Fulfilled []) mount)\<lparr>mounted := False\<rparr>) (LoadSnapshotCall 0)
       = Some ((on_metadata 1700000000000 (Fulfilled []) mount)\<lparr>mounted := False\<rparr>)"
proof -
  have r: "run mount [MetadataSettled 1700000000000 (Fulfilled []), LoadSnapshotCall 0, Unmount]
     = Some ((on_metadata 1700000000000 (Fulfilled []) mount)\<lparr>mounted := False\<rparr>)"
    by (simp add: on_metadata_def mount_def loadSnapshot_call_def)
  show ?thesis
    using r empty_store_keeps_defaultIndex [OF r]
    by (simp add: on_metadata_def mount_def loadSnapshot_call_def)
qed

section \<open>Failures during initialization\<close>

text \<open>
  An entry is rejected when its snapshot fetch is, and when the preload of an image it
  has is.
\<close>

lemma prefetch_entry_snapshot_rejected:
  "prefetch_entry meta (Rejected err) ir rgb rgbFirst = Rejected err"
  by (simp add: prefetch_entry_def)

lemma prefetch_entry_ir108_rejected:
  assumes "has_file (satellite_ir108 meta)"
  shows "\<exists>err'. prefetch_entry meta (Fulfilled s) (Rejected err) rgb rgbFirst = Rejected err'"
  using assms by (cases rgb; cases rgbFirst) (auto simp add: prefetch_entry_def Let_def)

lemma prefetch_entry_rgb_rejected:
  assumes "has_file (satellite_rgb_naturalenhncd meta)"
  shows "\<exists>err'. prefetch_entry meta (Fulfilled s) ir (Rejected err) rgbFirst = Rejected err'"
  using assms by (cases ir; cases rgbFirst) (auto simp add: prefetch_entry_def Let_def)

lemma prefetch_inv_start:
  "prefetch_inv (snapshotsToPrefetch (twoDaysAgo now) data) (on_metadata now (Fulfilled data) mount)"
  by (auto simp add: prefetch_inv_def on_metadata_def mount_def Let_def after_prefetch_def
      snapshotsToPrefetch_def)

lemma prefetch_inv_step:
  assumes "prefetch_inv pre w" and "entry_fulfilled pre e" and "step w e = Some w'"
  shows "prefetch_inv pre w'"
proof (cases e)
  case (EntrySettled k snap ir rgb rgbFirst)
  with assms(3) have k: "k \<in> set (pending w)" and w': "w' = on_entry k snap ir rgb rgbFirst w"
    by (auto split: if_splits)
  from assms(1) have pre: "init_prefetch w = pre" by (simp add: prefetch_inv_def)
  from assms(2) EntrySettled pre
  have ok: "prefetch_entry (init_prefetch w ! k) snap ir rgb rgbFirst = Fulfilled ()" by simp
  from k assms(1) have pcw: "pc w = AwaitPrefetch" by (auto simp add: prefetch_inv_def)
  show ?thesis
    using assms(1) ok pcw unfolding w'
    by (auto simp add: prefetch_inv_def on_entry_def Let_def after_prefetch_def)
qed (use assms in auto)

lemma prefetch_inv_run:
  assumes "run w evs = Some w'" and "prefetch_inv pre w" and "\<forall>e\<in>set evs. entry_fulfilled pre e"
  shows "prefetch_inv pre w'"
  using assms
proof (induction evs arbitrary: w)
  case Nil
  then show ?case by simp
next
  case (Cons e es)
  from Cons.prems(1) obtain w1 where s: "step w e = Some w1" and r: "run w1 es = Some w'"
    by (auto split: option.splits)
  from Cons.prems(3) have e: "entry_fulfilled pre e" and es: "\<forall>e\<in>set es. entry_fulfilled pre e"
    by auto
  from prefetch_inv_step [OF Cons.prems(2) e s] have "prefetch_inv pre w1" .
  from Cons.IH [OF r this es] show ?case .
qed

lemma late_entries_keep_outcome:
  assumes "pc w = Returned" and "step w (EntrySettled k snap ir rgb rgbFirst) = Some w'"
  shows "pc w' = Returned \<and> error (hook w') = error (hook w)
         \<and> isLoading (hook w') = isLoading (hook w)
         \<and> currentSnapshot (hook w') = currentSnapshot (hook w)"
  using assms
  by (auto simp add: on_entry_def Let_def split: if_splits settled.splits)

text \<open>
  Whenever the snapshot fetch of an entry rejects, or the preload of an image the entry has
  rejects, the entry as a whole is rejected, and with a definite value: that of the snapshot
  fetch if it rejected, otherwise that of the rejected preload that settles first.
\<close>

lemma prefetch_entry_first_rejection:
  assumes "snap = Rejected err
           \<or> (has_file (satellite_ir108 meta) \<and> ir = Rejected err)
           \<or> (has_file (satellite_rgb_naturalenhncd meta) \<and> rgb = Rejected err)"
  shows "\<exists>e. prefetch_entry meta snap ir rgb rgbFirst = Rejected e
           \<and> (snap = Rejected e
               \<or> (\<exists>s. snap = Fulfilled s)
                  \<and> (has_file (satellite_ir108 meta) \<and> ir = Rejected e
                       \<and> \<not> (rgbFirst \<and> has_file (satellite_rgb_naturalenhncd meta)
                              \<and> (\<exists>e2. rgb = Rejected e2))
                     \<or> has_file (satellite_rgb_naturalenhncd meta) \<and> rgb = Rejected e
                       \<and> \<not> (\<not> rgbFirst \<and> has_file (satellite_ir108 meta)
                              \<and> (\<exists>e1. ir = Rejected e1))))"
  using assms
  by (cases snap; cases ir; cases rgb; cases rgbFirst)
     (auto simp add: prefetch_entry_def Let_def)

text \<open>
  C3. On a hook that stays mounted: when the metadata fetch rejects, \<open>init\<close> returns with
  \<open>error\<close> set to the message of the thrown value, \<open>isLoading = false\<close> and no current
  snapshot. When the metadata has arrived, any number of prefetch entries have been
  fulfilled, and for an entry \<open>k\<close> that is still pending the snapshot fetch rejects, or the
  preload of its infrared or of its RGB image rejects, then the join is rejected with that
  entry and \<open>init\<close> returns in the same way: \<open>isLoading = false\<close>, no current snapshot, and
  \<open>error\<close> is the message of the value thrown by the snapshot fetch, or else by the rejected
  preload that settled first.
\<close>

theorem init_failure_enters_error_state:
  assumes "run mount (MetadataSettled now (Fulfilled data) # evs) = Some w"
    and "\<forall>e\<in>set evs. entry_fulfilled (snapshotsToPrefetch (twoDaysAgo now) data) e"
    and "k \<in> set (pending w)"
    and "snap = Rejected err
         \<or> (has_file (satellite_ir108 (snapshotsToPrefetch (twoDaysAgo now) data ! k))
              \<and> ir = Rejected err)
         \<or> (has_file (satellite_rgb_naturalenhncd (snapshotsToPrefetch (twoDaysAgo now) data ! k))
              \<and> rgb = Rejected err)"
  shows "(let w0 = on_metadata now0 (Rejected err0) mount
          in step mount (MetadataSettled now0 (Rejected err0)) = Some w0
             \<and> pc w0 = Returned
             \<and> error (hook w0) = Some (error_message err0)
             \<and> isLoading (hook w0) = False
             \<and> currentSnapshot (hook w0) = None)
       \<and> (let meta = snapshotsToPrefetch (twoDaysAgo now) data ! k;
              w' = on_entry k snap ir rgb rgbFirst w
          in step w (EntrySettled k snap ir rgb rgbFirst) = Some w'
             \<and> pc w' = Returned
             \<and> isLoading (hook w') = False
             \<and> currentSnapshot (hook w') = None
             \<and> (\<exists>e. error (hook w') = Some (error_message e)
                   \<and> (snap = Rejected e
                       \<or> (\<exists>s. snap = Fulfilled s)
                          \<and> (has_file (satellite_ir108 meta) \<and> ir = Rejected e
                               \<and> \<not> (rgbFirst \<and> has_file (satellite_rgb_naturalenhncd meta)
                                      \<and> (\<exists>e2. rgb = Rejected e2))
                             \<or> has_file (satellite_rgb_naturalenhncd meta) \<and> rgb = Rejected e
                               \<and> \<not> (\<not> rgbFirst \<and> has_file (satellite_ir108 meta)
                                      \<and> (\<exists>e1. ir = Rejected e1))))))"
proof -
  let ?pre = "snapshotsToPrefetch (twoDaysAgo now) data"
  have a: "let w0 = on_metadata now0 (Rejected err0) mount
          in step mount (MetadataSettled now0 (Rejected err0)) = Some w0
             \<and> pc w0 = Returned
             \<and> error (hook w0) = Some (error_message err0)
             \<and> isLoading (hook w0) = False
             \<and> currentSnapshot (hook w0) = None"
    by (simp add: on_metadata_def init_catch_def mount_def)
  from assms(1) have r: "run (on_metadata now (Fulfilled data) mount) evs = Some w"
    by (simp add: mount_def)
  have inv: "prefetch_inv ?pre w"
    by (rule prefetch_inv_run [OF r prefetch_inv_start assms(2)])
  with assms(3) have pcw: "pc w = AwaitPrefetch" and klt: "k < length (init_prefetch w)"
    and pre: "init_prefetch w = ?pre" and m: "mounted w"
    and cs: "currentSnapshot (hook w) = None"
    by (auto simp add: prefetch_inv_def)
  from prefetch_entry_first_rejection [OF assms(4), of rgbFirst]
  obtain e where rej: "prefetch_entry (?pre ! k) snap ir rgb rgbFirst = Rejected e"
    and which: "snap = Rejected e
               \<or> (\<exists>s. snap = Fulfilled s)
                  \<and> (has_file (satellite_ir108 (?pre ! k)) \<and> ir = Rejected e
                       \<and> \<not> (rgbFirst \<and> has_file (satellite_rgb_naturalenhncd (?pre ! k))
                              \<and> (\<exists>e2. rgb = Rejected e2))
                     \<or> has_file (satellite_rgb_naturalenhncd (?pre ! k)) \<and> rgb = Rejected e
                       \<and> \<not> (\<not> rgbFirst \<and> has_file (satellite_ir108 (?pre ! k))
                              \<and> (\<exists>e1. ir = Rejected e1)))"
    by blast
  have st: "step w (EntrySettled k snap ir rgb rgbFirst) = Some (on_entry k snap ir rgb rgbFirst w)"
    using assms(3) klt by simp
  have out: "pc (on_entry k snap ir rgb rgbFirst w) = Returned"
    "isLoading (hook (on_entry k snap ir rgb rgbFirst w)) = False"
    "currentSnapshot (hook (on_entry k snap ir rgb rgbFirst w)) = None"
    "error (hook (on_entry k snap ir rgb rgbFirst w)) = Some (error_message e)"
    using rej pcw pre m cs by (simp_all add: on_entry_def init_catch_def Let_def)
  have b: "let meta = ?pre ! k;
              w' = on_entry k snap ir rgb rgbFirst w
          in step w (EntrySettled k snap ir rgb rgbFirst) = Some w'
             \<and> pc w' = Returned
             \<and> isLoading (hook w') = False
             \<and> currentSnapshot (hook w') = None
             \<and> (\<exists>e. error (hook w') = Some (error_message e)
                   \<and> (snap = Rejected e
                       \<or> (\<exists>s. snap = Fulfilled s)
                          \<and> (has_file (satellite_ir108 meta) \<and> ir = Rejected e
                               \<and> \<not> (rgbFirst \<and> has_file (satellite_rgb_naturalenhncd meta)
                                      \<and> (\<exists>e2. rgb = Rejected e2))
                             \<or> has_file (satellite_rgb_naturalenhncd meta) \<and> rgb = Rejected e
                               \<and> \<not> (\<not> rgbFirst \<and> has_file (satellite_ir108 meta)
                                      \<and> (\<exists>e1. ir = Rejected e1)))))"
    unfolding Let_def using st out which by blast
  from a b show ?thesis by blast
qed

text \<open>
  Two recent entries, the second with both images; the first is fulfilled. For the second:
  the snapshot fetch fails with an \<open>Error\<close>; the infrared preload fails with a value that is
  no \<open>Error\<close>; the RGB preload fails; and both preloads fail, in either order.
\<close>

theorem init_failure_enters_error_state_witness:
  "let a = \<lparr>path = ''data/a.json'', timestamp = 5, satellite_ir108 = None,
             satellite_rgb_naturalenhncd = None\<rparr>;
       b = \<lparr>path = ''data/b.json'', timestamp = 6,
             satellite_ir108 = Some \<lparr>image_file = ''satellite_images/ir108.png'',
                                     bbox = (21.1, - 41, 103, 21.1)\<rparr>,
             satellite_rgb_naturalenhncd = Some \<lparr>image_file = ''satellite_images/rgb.png'',
                                     bbox = (21.1, - 41, 103, 21.1)\<rparr>\<rparr>;
       first = EntrySettled 0 (Fulfilled ''s0'') (Fulfilled ()) (Fulfilled ()) False;
       w = on_entry 0 (Fulfilled ''s0'') (Fulfilled ()) (Fulfilled ()) False
             (on_metadata 172800000 (Fulfilled [a, b]) mount);
       http = ErrorObject ''HTTP 404'';
       ir_err = ErrorObject ''ir108 failed'';
       rgb_err = ErrorObject ''rgb failed''
   in run mount [MetadataSettled 172800000 (Fulfilled [a, b]), first] = Some w
      \<and> (\<forall>e\<in>set [first]. entry_fulfilled (snapshotsToPrefetch (twoDaysAgo 172800000) [a, b]) e)
      \<and> 1 \<in> set (pending w)
      \<and> has_file (satellite_ir108 (snapshotsToPrefetch (twoDaysAgo 172800000) [a, b] ! 1))
      \<and> has_file (satellite_rgb_naturalenhncd
                    (snapshotsToPrefetch (twoDaysAgo 172800000) [a, b] ! 1))
      \<and> step w (EntrySettled 1 (Rejected http) (Fulfilled ()) (Fulfilled ()) False)
           = Some (on_entry 1 (Rejected http) (Fulfilled ()) (Fulfilled ()) False w)
      \<and> pc (on_entry 1 (Rejected http) (Fulfilled ()) (Fulfilled ()) False w) = Returned
      \<and> isLoading (hook (on_entry 1 (Rejected http) (Fulfilled ()) (Fulfilled ()) False w)) = False
      \<and> currentSnapshot (hook (on_entry 1 (Rejected http) (Fulfilled ()) (Fulfilled ()) False w))
           = None
      \<and> error (hook (on_entry 1 (Rejected http) (Fulfilled ()) (Fulfilled ()) False w))
           = Some ''HTTP 404''
      \<and> error (hook (on_entry 1 (Fulfilled ''s1'') (Rejected OtherValue) (Fulfilled ()) False w))
           = Some ''Erreur inconnue''
      \<and> error (hook (on_entry 1 (Fulfilled ''s1'') (Fulfilled ()) (Rejected rgb_err) False w))
           = Some ''rgb failed''
      \<and> error (hook (on_entry 1 (Fulfilled ''s1'') (Rejected ir_err) (Rejected rgb_err) True w))
           = Some ''rgb failed''
      \<and> error (hook (on_entry 1 (Fulfilled ''s1'') (Rejected ir_err) (Rejected rgb_err) False w))
           = Some ''ir108 failed''"
proof -
  define a where "a = \<lparr>path = ''data/a.json'', timestamp = 5, satellite_ir108 = None,
             satellite_rgb_naturalenhncd = None\<rparr>"
  define b where "b = \<lparr>path = ''data/b.json'', timestamp = 6,
             satellite_ir108 = Some \<lparr>image_file = ''satellite_images/ir108.png'',
                                     bbox = (21.1, - 41, 103, 21.1)\<rparr>,
             satellite_rgb_naturalenhncd = Some \<lparr>image_file = ''satellite_images/rgb.png'',
                                     bbox = (21.1, - 41, 103, 21.1)\<rparr>\<rparr>"
  define first where "first = EntrySettled 0 (Fulfilled ''s0'') (Fulfilled ()) (Fulfilled ()) False"
  define w where "w = on_entry 0 (Fulfilled ''s0'') (Fulfilled ()) (Fulfilled ()) False
             (on_metadata 172800000 (Fulfilled [a, b]) mount)"
  define http where "http = ErrorObject ''HTTP 404''"
  define ir_err where "ir_err = ErrorObject ''ir108 failed''"
  define rgb_err where "rgb_err = ErrorObject ''rgb failed''"
  let ?pre = "snapshotsToPrefetch (twoDaysAgo 172800000) [a, b]"
  have pre: "?pre = [a, b]"
    by (simp add: snapshotsToPrefetch_def twoDaysAgo_def a_def b_def)
  have w0: "pending (on_metadata 172800000 (Fulfilled [a, b]) mount) = [0, 1]"
    "init_prefetch (on_metadata 172800000 (Fulfilled [a, b]) mount) = [a, b]"
    "pc (on_metadata 172800000 (Fulfilled [a, b]) mount) = AwaitPrefetch"
    by (simp_all add: on_metadata_def mount_def Let_def pre upt_rec)
  have pm: "pc mount = AwaitMetadata" by (simp add: mount_def)
  have sat: "\<not> has_file (satellite_ir108 a)" "\<not> has_file (satellite_rgb_naturalenhncd a)"
    "has_file (satellite_ir108 b)" "has_file (satellite_rgb_naturalenhncd b)"
    by (simp_all add: a_def b_def has_file_def)
  have h1: "run mount [MetadataSettled 172800000 (Fulfilled [a, b]), first] = Some w"
    by (simp add: first_def w_def w0 pm)
  have h2: "\<forall>e\<in>set [first]. entry_fulfilled ?pre e"
    by (simp add: pre first_def prefetch_entry_def sat)
  have h3: "1 \<in> set (pending w)"
    by (simp add: w_def on_entry_def Let_def w0 prefetch_entry_def sat after_prefetch_def)
  have fi: "has_file (satellite_ir108 (?pre ! 1))" "has_file (satellite_rgb_naturalenhncd (?pre ! 1))"
    by (simp_all add: pre sat)
  have c_snap: "(Rejected http :: LoadedSnapshot settled) = Rejected http
         \<or> (has_file (satellite_ir108 (?pre ! 1)) \<and> (Fulfilled () :: unit settled) = Rejected http)
         \<or> (has_file (satellite_rgb_naturalenhncd (?pre ! 1))
              \<and> (Fulfilled () :: unit settled) = Rejected http)"
    by simp
  have c_ir: "(Fulfilled ''s1'' :: LoadedSnapshot settled) = Rejected OtherValue
         \<or> (has_file (satellite_ir108 (?pre ! 1)) \<and> (Rejected OtherValue :: unit settled) = Rejected OtherValue)
         \<or> (has_file (satellite_rgb_naturalenhncd (?pre ! 1))
              \<and> (Fulfilled () :: unit settled) = Rejected OtherValue)"
    using fi by simp
  have c_rgb: "(Fulfilled ''s1'' :: LoadedSnapshot settled) = Rejected rgb_err
         \<or> (has_file (satellite_ir108 (?pre ! 1)) \<and> (Fulfilled () :: unit settled) = Rejected rgb_err)
         \<or> (has_file (satellite_rgb_naturalenhncd (?pre ! 1))
              \<and> (Rejected rgb_err :: unit settled) = Rejected rgb_err)"
    using fi by simp
  have c_both: "(Fulfilled ''s1'' :: LoadedSnapshot settled) = Rejected rgb_err
         \<or> (has_file (satellite_ir108 (?pre ! 1)) \<and> (Rejected ir_err :: unit settled) = Rejected rgb_err)
         \<or> (has_file (satellite_rgb_naturalenhncd (?pre ! 1))
              \<and> (Rejected rgb_err :: unit settled) = Rejected rgb_err)"
    using fi by simp
  have ne: "ir_err \<noteq> rgb_err" by (simp add: ir_err_def rgb_err_def)
  note t1 = init_failure_enters_error_state [OF h1 h2 h3 c_snap, of 0 OtherValue False]
  note t2 = init_failure_enters_error_state [OF h1 h2 h3 c_ir, of 0 OtherValue False]
  note t3 = init_failure_enters_error_state [OF h1 h2 h3 c_rgb, of 0 OtherValue False]
  note t4 = init_failure_enters_error_state [OF h1 h2 h3 c_both, of 0 OtherValue True]
  note t5 = init_failure_enters_error_state [OF h1 h2 h3 c_both, of 0 OtherValue False]
  have e1: "error (hook (on_entry 1 (Rejected http) (Fulfilled ()) (Fulfilled ()) False w))
           = Some ''HTTP 404''"
    using t1 by (auto simp add: Let_def error_message_def http_def)
  have e2: "error (hook (on_entry 1 (Fulfilled ''s1'') (Rejected OtherValue) (Fulfilled ()) False w))
           = Some ''Erreur inconnue''"
    using t2 by (auto simp add: Let_def error_message_def)
  have e3: "error (hook (on_entry 1 (Fulfilled ''s1'') (Fulfilled ()) (Rejected rgb_err) False w))
           = Some ''rgb failed''"
    using t3 by (auto simp add: Let_def error_message_def rgb_err_def)
  have e4: "error (hook (on_entry 1 (Fulfilled ''s1'') (Rejected ir_err) (Rejected rgb_err) True w))
           = Some ''rgb failed''"
    using t4 fi by (auto simp add: Let_def error_message_def rgb_err_def)
  have e5: "error (hook (on_entry 1 (Fulfilled ''s1'') (Rejected ir_err) (Rejected rgb_err) False w))
           = Some ''ir108 failed''"
    using t5 fi by (auto simp add: Let_def error_message_def ir_err_def)
  have rest: "step w (EntrySettled 1 (Rejected http) (Fulfilled ()) (Fulfilled ()) False)
           = Some (on_entry 1 (Rejected http) (Fulfilled ()) (Fulfilled ()) False w)"
    "pc (on_entry 1 (Rejected http) (Fulfilled ()) (Fulfilled ()) False w) = Returned"
    "isLoading (hook (on_entry 1 (Rejected http) (Fulfilled ()) (Fulfilled ()) False w)) = False"
    "currentSnapshot (hook (on_entry 1 (Rejected http) (Fulfilled ()) (Fulfilled ()) False w)) = None"
    using t1 by (simp_all add: Let_def)
  have all: "run mount [MetadataSettled 172800000 (Fulfilled [a, b]), first] = Some w
      \<and> (\<forall>e\<in>set [first]. entry_fulfilled ?pre e)
      \<and> 1 \<in> set (pending w)
      \<and> has_file (satellite_ir108 (?pre ! 1))
      \<and> has_file (satellite_rgb_naturalenhncd (?pre ! 1))
      \<and> step w (EntrySettled 1 (Rejected http) (Fulfilled ()) (Fulfilled ()) False)
           = Some (on_entry 1 (Rejected http) (Fulfilled ()) (Fulfilled ()) False w)
      \<and> pc (on_entry 1 (Rejected http) (Fulfilled ()) (Fulfilled ()) False w) = Returned
      \<and> isLoading (hook (on_entry 1 (Rejected http) (Fulfilled ()) (Fulfilled ()) False w)) = False
      \<and> currentSnapshot (hook (on_entry 1 (Rejected http) (Fulfilled ()) (Fulfilled ()) False w))
           = None
      \<and> error (hook (on_entry 1 (Rejected http) (Fulfilled ()) (Fulfilled ()) False w))
           = Some ''HTTP 404''
      \<and> error (hook (on_entry 1 (Fulfilled ''s1'') (Rejected OtherValue) (Fulfilled ()) False w))
           = Some ''Erreur inconnue''
      \<and> error (hook (on_entry 1 (Fulfilled ''s1'') (Fulfilled ()) (Rejected rgb_err) False w))
           = Some ''rgb failed''
      \<and> error (hook (on_entry 1 (Fulfilled ''s1'') (Rejected ir_err) (Rejected rgb_err) True w))
           = Some ''rgb failed''
      \<and> error (hook (on_entry 1 (Fulfilled ''s1'') (Rejected ir_err) (Rejected rgb_err) False w))
           = Some ''ir108 failed''"
    using h1 h2 h3 fi rest e1 e2 e3 e4 e5 by blast
  show ?thesis
    unfolding Let_def
    using all [unfolded a_def b_def first_def w_def http_def ir_err_def rgb_err_def]
    by blast
qed

section \<open>Sharing of snapshot requests\<close>

text \<open>
  While the request for a key is in flight and is not answered, further fetches and the
  answers to other keys leave it in flight and issue no request for that key.
\<close>

lemma loader_step_keeps_in_flight:
  assumes "cache l key = Some InFlight" and "loader_step l e = Some l'" and "\<not> settles key e"
  shows "cache l' key = Some InFlight \<and> count_list (requests l') key = count_list (requests l) key"
proof (cases e)
  case (Fetch meta)
  with assms show ?thesis
    by (cases "path meta = key")
       (auto simp add: fetchSnapshotData_def Let_def split: option.splits)
next
  case (Settle key' res)
  with assms show ?thesis
    by (auto simp add: settle_request_def split: option.splits slot.splits)
qed

lemma loader_run_keeps_in_flight:
  assumes "loader_run l evs = Some l'" and "cache l key = Some InFlight"
    and "\<forall>e\<in>set evs. \<not> settles key e"
  shows "cache l' key = Some InFlight \<and> count_list (requests l') key = count_list (requests l) key"
  using assms
proof (induction evs arbitrary: l)
  case Nil
  then show ?case by simp
next
  case (Cons e es)
  from Cons.prems(1) obtain l1 where s: "loader_step l e = Some l1" and r: "loader_run l1 es = Some l'"
    by (auto split: option.splits)
  from Cons.prems(3) have ne: "\<not> settles key e" and rest: "\<forall>e\<in>set es. \<not> settles key e" by auto
  from loader_step_keeps_in_flight [OF Cons.prems(2) s ne]
  have c: "cache l1 key = Some InFlight" and n: "count_list (requests l1) key = count_list (requests l) key"
    by auto
  from Cons.IH [OF r c rest] n show ?case by simp
qed

text \<open>
  C5. Two fetches whose metadata carry the same trajectory reference, the first issued on a
  loader that has nothing under that key, the second after any events that do not answer
  the first: the first call issues one request, the second issues none and leaves the loader
  unchanged, both calls get the same promise, and the request log holds exactly one more
  request for the key than before the pair.
\<close>

theorem concurrent_fetches_share_request:
  assumes "path m1 = path m2"
    and "cache l (path m1) = None"
    and "loader_run (snd (fetchSnapshotData m1 l)) evs = Some l2"
    and "\<forall>e\<in>set evs. \<not> settles (path m1) e"
  shows "requests (snd (fetchSnapshotData m1 l)) = requests l @ [path m1]
         \<and> cache l2 (path m1) = Some InFlight
         \<and> snd (fetchSnapshotData m2 l2) = l2
         \<and> fst (fetchSnapshotData m2 l2) = fst (fetchSnapshotData m1 l)
         \<and> count_list (requests (snd (fetchSnapshotData m2 l2))) (path m1)
             = count_list (requests l) (path m1) + 1"
proof -
  let ?l1 = "snd (fetchSnapshotData m1 l)"
  have first: "requests ?l1 = requests l @ [path m1]" "cache ?l1 (path m1) = Some InFlight"
    using assms(2) by (simp_all add: fetchSnapshotData_def Let_def)
  from loader_run_keeps_in_flight [OF assms(3) first(2) assms(4)]
  have c: "cache l2 (path m1) = Some InFlight"
    and n: "count_list (requests l2) (path m1) = count_list (requests ?l1) (path m1)" by auto
  have second: "fetchSnapshotData m2 l2 = (path m1, l2)"
    using c assms(1) by (simp add: fetchSnapshotData_def Let_def)
  have p1: "fst (fetchSnapshotData m1 l) = path m1"
    by (simp add: fetchSnapshotData_def Let_def split: option.splits)
  show ?thesis
    using first c n second p1 by simp
qed

text \<open>
  An empty loader; between the two calls another snapshot is fetched and answered.
\<close>

theorem concurrent_fetches_share_request_witness:
  "let m1 = \<lparr>path = ''data/t.json'', timestamp = 1, satellite_ir108 = None,
              satellite_rgb_naturalenhncd = None\<rparr>;
       m2 = \<lparr>path = ''data/t.json'', timestamp = 2, satellite_ir108 = None,
              satellite_rgb_naturalenhncd = None\<rparr>;
       other = \<lparr>path = ''data/u.json'', timestamp = 3, satellite_ir108 = None,
              satellite_rgb_naturalenhncd = None\<rparr>;
       l = \<lparr>cache = Map.empty, requests = []\<rparr>;
       evs = [Fetch other, Settle ''data/u.json'' (Fulfilled ''u'')];
       l2 = \<lparr>cache = [''data/t.json'' \<mapsto> InFlight, ''data/u.json'' \<mapsto> Loaded ''u''],
              requests = [''data/t.json'', ''data/u.json'']\<rparr>
   in path m1 = path m2
      \<and> cache l (path m1) = None
      \<and> loader_run (snd (fetchSnapshotData m1 l)) evs = Some l2
      \<and> (\<forall>e\<in>set evs. \<not> settles (path m1) e)
      \<and> snd (fetchSnapshotData m2 l2) = l2
      \<and> fst (fetchSnapshotData m2 l2) = fst (fetchSnapshotData m1 l)
      \<and> count_list (requests (snd (fetchSnapshotData m2 l2))) ''data/t.json'' = 1"
proof -
  define m1 where "m1 = \<lparr>path = ''data/t.json'', timestamp = 1, satellite_ir108 = None,
              satellite_rgb_naturalenhncd = None\<rparr>"
  define m2 where "m2 = \<lparr>path = ''data/t.json'', timestamp = 2, satellite_ir108 = None,
              satellite_rgb_naturalenhncd = None\<rparr>"
  define other where "other = \<lparr>path = ''data/u.json'', timestamp = 3, satellite_ir108 = None,
              satellite_rgb_naturalenhncd = None\<rparr>"
  define l where "l = \<lparr>cache = Map.empty, requests = []\<rparr>"
  define evs where "evs = [Fetch other, Settle ''data/u.json'' (Fulfilled ''u'')]"
  define l2 where "l2 = \<lparr>cache = [''data/t.json'' \<mapsto> InFlight, ''data/u.json'' \<mapsto> Loaded ''u''],
              requests = [''data/t.json'', ''data/u.json'']\<rparr>"
  have h1: "path m1 = path m2" by (simp add: m1_def m2_def)
  have h2: "cache l (path m1) = None" by (simp add: l_def)
  have h3: "loader_run (snd (fetchSnapshotData m1 l)) evs = Some l2"
    by (simp add: fetchSnapshotData_def settle_request_def Let_def m1_def other_def l_def
        evs_def l2_def)
  have h4: "\<forall>e\<in>set evs. \<not> settles (path m1) e" by (simp add: evs_def m1_def)
  have p: "path m1 = ''data/t.json''" "requests l = []" by (simp_all add: m1_def l_def)
  note c = concurrent_fetches_share_request [OF h1 h2 h3 h4]
  show ?thesis
    using h1 [unfolded m1_def m2_def] h2 [unfolded m1_def l_def]
      h3 [unfolded m1_def l_def evs_def l2_def other_def]
      h4 [unfolded m1_def evs_def other_def]
      c [unfolded m1_def m2_def l_def evs_def l2_def other_def]
    by (simp add: Let_def)
qed

end
